theory Spec2Isabelle
  imports Complex_Main "HOL-Library.Multiset"
begin

section \<open>JSON values as the handlers of server.js see them\<close>

text \<open>
  A request body parsed by \<^verbatim>\<open>express.json()\<close> and a query string parsed by Express are
  JavaScript values built from null, booleans, numbers, strings, arrays and objects.
  An object is an association list of its own properties; a property that is missing
  reads as \<^verbatim>\<open>undefined\<close>, which is \<open>None\<close> of \<open>jsval option\<close>. Numbers are the
  integers (a fractional JSON number is outside the model). A request body is a JSON
  object, given by the list of its properties (\<open>fields\<close>); the name of a property is
  looked up with \<open>map_of\<close>, and the order of the properties carries no meaning.
\<close>

datatype jsval =
    JNull
  | JBool bool
  | JNum int
  | JStr string
  | JArr "jsval list"
  | JObj "(string \<times> jsval) list"

type_synonym fields = "(string \<times> jsval) list"

text \<open>JavaScript truthiness: \<^verbatim>\<open>!v\<close> is \<open>\<not> truthy v\<close>.\<close>

fun truthy :: "jsval \<Rightarrow> bool" where
  "truthy JNull = False"
| "truthy (JBool b) = b"
| "truthy (JNum n) = (n \<noteq> 0)"
| "truthy (JStr s) = (s \<noteq> [])"
| "truthy (JArr xs) = True"
| "truthy (JObj fs) = True"

text \<open>\<^verbatim>\<open>!v\<close> for a value that may be \<^verbatim>\<open>undefined\<close>.\<close>

fun js_not :: "jsval option \<Rightarrow> bool" where
  "js_not None = True"
| "js_not (Some v) = (\<not> truthy v)"

text \<open>\<^verbatim>\<open>a || b\<close> on values that may be \<^verbatim>\<open>undefined\<close>.\<close>

definition js_or :: "jsval option \<Rightarrow> jsval option \<Rightarrow> jsval option" where
  "js_or a b = (if js_not a then b else a)"

text \<open>A runtime error carries the text of \<^verbatim>\<open>err.message\<close>.\<close>

type_synonym js_error = string

text \<open>
  Reading one of the properties the handlers name (\<^verbatim>\<open>role\<close>, \<^verbatim>\<open>message\<close>,
  \<^verbatim>\<open>content\<close>, \<^verbatim>\<open>choices\<close>): an object gives its own property, null throws a
  TypeError, every other value has no such property.
\<close>

definition cannot_read :: "string \<Rightarrow> string \<Rightarrow> js_error" where
  "cannot_read what k = ''Cannot read properties of '' @ what @ '' (reading '' @ [CHR 0x27] @ k @ [CHR 0x27] @ '')''"

fun get_prop :: "jsval \<Rightarrow> string \<Rightarrow> js_error + jsval option" where
  "get_prop JNull k = Inl (cannot_read ''null'' k)"
| "get_prop (JObj fs) k = Inr (map_of fs k)"
| "get_prop v k = Inr None"

section \<open>Responses, the store and the calls a handler makes\<close>

record reminder =
  rid :: nat
  userId :: jsval
  title :: jsval
  dueDate :: int
  description :: "jsval option"

datatype payload =
    Json jsval
  | ReminderDoc reminder
  | ReminderList "reminder list"

record response =
  status :: nat
  body :: payload

text \<open>\<^verbatim>\<open>res.status(c).json({ message: m })\<close> and \<^verbatim>\<open>{ message: m, error: err.message }\<close>.\<close>

definition msg_response :: "nat \<Rightarrow> string \<Rightarrow> response" where
  "msg_response c m = \<lparr>status = c, body = Json (JObj [(''message'', JStr m)])\<rparr>"

definition err_response :: "string \<Rightarrow> js_error \<Rightarrow> response" where
  "err_response m e =
     \<lparr>status = 500, body = Json (JObj [(''message'', JStr m), (''error'', JStr e)])\<rparr>"

record chat_msg =
  role :: "jsval option"
  content :: "jsval option"

record completion_request =
  messages :: "chat_msg list"
  model :: string
  temperature :: rat
  max_tokens :: nat

datatype call =
    User_findOne jsval
  | User_findOneAndUpdate jsval fields bool
  | Reminder_find jsval
  | Reminder_save reminder
  | Groq_create completion_request

record store =
  users :: "fields list"
  reminders :: "reminder list"
  next_id :: nat

record outcome =
  resp :: response
  after :: store
  calls :: "call list"

subsection \<open>The document store\<close>

text \<open>
  Modelled from the spec: the Mongoose models \<^verbatim>\<open>./models/UserProfile\<close> and
  \<^verbatim>\<open>./models/Reminder\<close> are not among the sources. A user profile is a flat record of
  fields identified by \<^verbatim>\<open>userId\<close>, with an open-ended set of further attributes merged
  on write; \<^verbatim>\<open>userId\<close> is an opaque matching key, compared by equality. A query
  matches the first stored record with the key, as \<^verbatim>\<open>findOne\<close> does.
\<close>

definition has_userId :: "jsval \<Rightarrow> fields \<Rightarrow> bool" where
  "has_userId uid d = (map_of d ''userId'' = Some uid)"

definition findOne :: "jsval \<Rightarrow> fields list \<Rightarrow> fields option" where
  "findOne uid us = find (has_userId uid) us"

text \<open>Setting one field of a record, and the \<^verbatim>\<open>$set\<close> of a whole update document.\<close>

fun set_field :: "string \<Rightarrow> jsval \<Rightarrow> fields \<Rightarrow> fields" where
  "set_field k v [] = [(k, v)]"
| "set_field k v ((k', v') # fs) =
     (if k = k' then (k, v) # fs else (k', v') # set_field k v fs)"

fun set_fields :: "fields \<Rightarrow> fields \<Rightarrow> fields" where
  "set_fields [] d = d"
| "set_fields ((k, v) # upd) d = set_field k v (set_fields upd d)"

text \<open>\<^verbatim>\<open>setDefaultsOnInsert\<close>: a default of the schema fills a field the new record lacks.\<close>

fun with_defaults :: "fields \<Rightarrow> fields \<Rightarrow> fields" where
  "with_defaults [] d = d"
| "with_defaults ((k, v) # dfl) d =
     (if map_of d k = None then with_defaults dfl (d @ [(k, v)]) else with_defaults dfl d)"

fun update_first :: "(fields \<Rightarrow> bool) \<Rightarrow> (fields \<Rightarrow> fields) \<Rightarrow> fields list \<Rightarrow> fields list" where
  "update_first p f [] = []"
| "update_first p f (d # ds) = (if p d then f d # ds else d # update_first p f ds)"

text \<open>
  \<^verbatim>\<open>findOneAndUpdate(filter, update, { new: true, upsert })\<close>: the first record with the
  key is updated in place and returned as updated; with no such record, an upsert
  appends a record made of the key, the update and the schema's defaults, and a plain
  update returns null. The schema's defaults are the parameter \<open>dfl\<close>.
\<close>

definition findOneAndUpdate ::
  "bool \<Rightarrow> fields \<Rightarrow> jsval \<Rightarrow> fields \<Rightarrow> fields list \<Rightarrow> fields option \<times> fields list" where
  "findOneAndUpdate upsert dfl uid upd us =
     (case find (has_userId uid) us of
        Some d \<Rightarrow> (Some (set_fields upd d), update_first (has_userId uid) (set_fields upd) us)
      | None \<Rightarrow>
          if upsert
          then (let d = with_defaults dfl (set_fields upd [(''userId'', uid)])
                in (Some d, us @ [d]))
          else (None, us))"

text \<open>
  Modelled from the spec: the schema of \<^verbatim>\<open>./models/Reminder\<close> is not among the sources;
  a due date is stored as a point in time, an integer. The query
  \<^verbatim>\<open>Reminder.find({ userId }).sort({ dueDate: 1 })\<close> gives the reminders with the key,
  in ascending order of due date.
\<close>

definition find_sorted :: "jsval \<Rightarrow> reminder list \<Rightarrow> reminder list" where
  "find_sorted uid rs = sort_key dueDate (filter (\<lambda>r. userId r = uid) rs)"

section \<open>The handlers of server.js\<close>

text \<open>
  Every handler makes at most one call to the store or to the vendor. The argument
  \<open>fault\<close> is what the store does with that call: \<open>None\<close> when it answers, \<open>Some m\<close>
  when the awaited call rejects with an error whose message is \<open>m\<close> (the store is then
  left as it was).
\<close>

subsection \<open>User profile\<close>

text \<open>\<^verbatim>\<open>app.get('/api/user/profile')\<close>; \<open>q\<close> is \<^verbatim>\<open>req.query.userId\<close>.\<close>

definition get_profile :: "js_error option \<Rightarrow> jsval option \<Rightarrow> store \<Rightarrow> outcome" where
  "get_profile fault q st =
     (case q of
        None \<Rightarrow> \<lparr>resp = msg_response 400 ''userId is required'', after = st, calls = []\<rparr>
      | Some uid \<Rightarrow>
          if \<not> truthy uid
          then \<lparr>resp = msg_response 400 ''userId is required'', after = st, calls = []\<rparr>
          else (case fault of
                  Some e \<Rightarrow>
                    \<lparr>resp = msg_response 500 ''Server error'', after = st,
                     calls = [User_findOne uid]\<rparr>
                | None \<Rightarrow>
                    (case findOne uid (users st) of
                       None \<Rightarrow>
                         \<lparr>resp = msg_response 404 ''User not found'', after = st,
                          calls = [User_findOne uid]\<rparr>
                     | Some user \<Rightarrow>
                         \<lparr>resp = \<lparr>status = 200, body = Json (JObj user)\<rparr>, after = st,
                          calls = [User_findOne uid]\<rparr>)))"

text \<open>
  \<^verbatim>\<open>app.post('/api/user/profile')\<close>; \<open>b\<close> is the object \<^verbatim>\<open>req.body\<close>. The update
  document is \<^verbatim>\<open>{ name, email, ...rest }\<close>, where \<^verbatim>\<open>rest\<close> is the body without
  \<^verbatim>\<open>userId\<close>, \<^verbatim>\<open>name\<close> and \<^verbatim>\<open>email\<close>.
\<close>

definition rest_of :: "fields \<Rightarrow> fields" where
  "rest_of b = filter (\<lambda>kv. fst kv \<noteq> ''userId'' \<and> fst kv \<noteq> ''name'' \<and> fst kv \<noteq> ''email'') b"

definition post_profile :: "fields \<Rightarrow> js_error option \<Rightarrow> fields \<Rightarrow> store \<Rightarrow> outcome" where
  "post_profile dfl fault b st =
     (case (map_of b ''userId'', map_of b ''name'', map_of b ''email'') of
        (Some uid, Some nm, Some em) \<Rightarrow>
          if \<not> truthy uid \<or> \<not> truthy nm \<or> \<not> truthy em
          then \<lparr>resp = msg_response 400 ''userId, name, email required'', after = st, calls = []\<rparr>
          else
            (let upd = (''name'', nm) # (''email'', em) # rest_of b in
             case fault of
               Some e \<Rightarrow>
                 \<lparr>resp = err_response ''Server error'' e, after = st,
                  calls = [User_findOneAndUpdate uid upd True]\<rparr>
             | None \<Rightarrow>
                 (case findOneAndUpdate True dfl uid upd (users st) of
                    (updatedUser, us') \<Rightarrow>
                      \<lparr>resp = \<lparr>status = 200,
                               body = Json (case updatedUser of None \<Rightarrow> JNull | Some d \<Rightarrow> JObj d)\<rparr>,
                       after = st\<lparr>users := us'\<rparr>,
                       calls = [User_findOneAndUpdate uid upd True]\<rparr>))
      | _ \<Rightarrow> \<lparr>resp = msg_response 400 ''userId, name, email required'', after = st, calls = []\<rparr>)"

text \<open>
  \<^verbatim>\<open>app.put('/api/user/profile')\<close>; \<open>q\<close> is \<^verbatim>\<open>req.query.userId\<close>, the update is
  \<^verbatim>\<open>{ $set: req.body }\<close>.
\<close>

definition put_profile :: "js_error option \<Rightarrow> jsval option \<Rightarrow> fields \<Rightarrow> store \<Rightarrow> outcome" where
  "put_profile fault q b st =
     (case q of
        None \<Rightarrow> \<lparr>resp = msg_response 400 ''userId is required'', after = st, calls = []\<rparr>
      | Some uid \<Rightarrow>
          if \<not> truthy uid
          then \<lparr>resp = msg_response 400 ''userId is required'', after = st, calls = []\<rparr>
          else (case fault of
                  Some e \<Rightarrow>
                    \<lparr>resp = err_response ''Server error'' e, after = st,
                     calls = [User_findOneAndUpdate uid b False]\<rparr>
                | None \<Rightarrow>
                    (case findOneAndUpdate False [] uid b (users st) of
                       (None, us') \<Rightarrow>
                         \<lparr>resp = msg_response 404 ''User not found'', after = st\<lparr>users := us'\<rparr>,
                          calls = [User_findOneAndUpdate uid b False]\<rparr>
                     | (Some d, us') \<Rightarrow>
                         \<lparr>resp = \<lparr>status = 200, body = Json (JObj d)\<rparr>,
                          after = st\<lparr>users := us'\<rparr>,
                          calls = [User_findOneAndUpdate uid b False]\<rparr>)))"

subsection \<open>Reminders\<close>

text \<open>\<^verbatim>\<open>app.get('/api/reminders')\<close>; \<open>q\<close> is \<^verbatim>\<open>req.query.userId\<close>.\<close>

definition get_reminders :: "js_error option \<Rightarrow> jsval option \<Rightarrow> store \<Rightarrow> outcome" where
  "get_reminders fault q st =
     (case q of
        None \<Rightarrow> \<lparr>resp = msg_response 400 ''userId is required'', after = st, calls = []\<rparr>
      | Some uid \<Rightarrow>
          if \<not> truthy uid
          then \<lparr>resp = msg_response 400 ''userId is required'', after = st, calls = []\<rparr>
          else (case fault of
                  Some e \<Rightarrow>
                    \<lparr>resp = err_response ''Server error'' e, after = st,
                     calls = [Reminder_find uid]\<rparr>
                | None \<Rightarrow>
                    \<lparr>resp = \<lparr>status = 200, body = ReminderList (find_sorted uid (reminders st))\<rparr>,
                     after = st, calls = [Reminder_find uid]\<rparr>))"

text \<open>
  \<^verbatim>\<open>app.post('/api/reminders')\<close>. The schema's cast of \<^verbatim>\<open>dueDate\<close> to a point in time
  is the parameter \<open>cast\<close> (the schema is not among the sources): \<open>Inl m\<close> when
  validation rejects the value with message \<open>m\<close>, before anything is written.
\<close>

definition post_reminders ::
  "(jsval \<Rightarrow> js_error + int) \<Rightarrow> js_error option \<Rightarrow> fields \<Rightarrow> store \<Rightarrow> outcome" where
  "post_reminders cast fault b st =
     (case (map_of b ''userId'', map_of b ''title'', map_of b ''dueDate'') of
        (Some uid, Some ttl, Some due) \<Rightarrow>
          if \<not> truthy uid \<or> \<not> truthy ttl \<or> \<not> truthy due
          then \<lparr>resp = msg_response 400 ''userId, title, dueDate required'', after = st, calls = []\<rparr>
          else
            (case cast due of
               Inl e \<Rightarrow> \<lparr>resp = err_response ''Server error'' e, after = st, calls = []\<rparr>
             | Inr d \<Rightarrow>
                 (let newReminder =
                        \<lparr>rid = next_id st, userId = uid, title = ttl, dueDate = d,
                         description = map_of b ''description''\<rparr> in
                  case fault of
                    Some e \<Rightarrow>
                      \<lparr>resp = err_response ''Server error'' e, after = st,
                       calls = [Reminder_save newReminder]\<rparr>
                  | None \<Rightarrow>
                      \<lparr>resp = \<lparr>status = 201, body = ReminderDoc newReminder\<rparr>,
                       after = st\<lparr>reminders := reminders st @ [newReminder],
                                  next_id := Suc (next_id st)\<rparr>,
                       calls = [Reminder_save newReminder]\<rparr>))
      | _ \<Rightarrow> \<lparr>resp = msg_response 400 ''userId, title, dueDate required'', after = st, calls = []\<rparr>)"

subsection \<open>The completion proxy\<close>

text \<open>
  The two proxy handlers do not read the store. The vendor is a function of the request:
  \<open>Inl m\<close> when \<^verbatim>\<open>groq.chat.completions.create\<close> rejects with message \<open>m\<close>, \<open>Inr c\<close>
  when it resolves with the completion object \<open>c\<close>. A handler returns its response and
  the requests it sent to the vendor.
\<close>

type_synonym vendor = "completion_request \<Rightarrow> js_error + jsval"

text \<open>\<^verbatim>\<open>String(v)\<close> for the elements \<^verbatim>\<open>Array.prototype.join\<close> concatenates.\<close>

fun digits :: "nat \<Rightarrow> string" where
  "digits n = (if n < 10 then [''0123456789'' ! n] else digits (n div 10) @ [''0123456789'' ! (n mod 10)])"

definition show_int :: "int \<Rightarrow> string" where
  "show_int i = (if i < 0 then CHR ''-'' # digits (nat (- i)) else digits (nat i))"

fun join :: "string \<Rightarrow> string list \<Rightarrow> string" where
  "join sep [] = []"
| "join sep [x] = x"
| "join sep (x # y # ys) = x @ sep @ join sep (y # ys)"

fun to_string :: "jsval \<Rightarrow> string" where
  "to_string JNull = ''null''"
| "to_string (JBool b) = (if b then ''true'' else ''false'')"
| "to_string (JNum n) = show_int n"
| "to_string (JStr s) = s"
| "to_string (JArr xs) = join '','' (map (\<lambda>x. if x = JNull then [] else to_string x) xs)"
| "to_string (JObj fs) = ''[object Object]''"

definition join_values :: "string \<Rightarrow> jsval list \<Rightarrow> string" where
  "join_values sep xs = join sep (map (\<lambda>x. if x = JNull then [] else to_string x) xs)"

text \<open>\<^verbatim>\<open>chatCompletion.choices[0]?.message?.content\<close>.\<close>

fun index0 :: "jsval option \<Rightarrow> js_error + jsval option" where
  "index0 None = Inl (cannot_read ''undefined'' ''0'')"
| "index0 (Some JNull) = Inl (cannot_read ''null'' ''0'')"
| "index0 (Some (JArr xs)) = Inr (case xs of [] \<Rightarrow> None | x # _ \<Rightarrow> Some x)"
| "index0 (Some (JStr s)) = Inr (case s of [] \<Rightarrow> None | c # _ \<Rightarrow> Some (JStr [c]))"
| "index0 (Some (JObj fs)) = Inr (map_of fs ''0'')"
| "index0 (Some v) = Inr None"

text \<open>\<^verbatim>\<open>v?.k\<close>: undefined when \<open>v\<close> is null or undefined.\<close>

fun opt_prop :: "jsval option \<Rightarrow> string \<Rightarrow> jsval option" where
  "opt_prop (Some (JObj fs)) k = map_of fs k"
| "opt_prop v k = None"

definition first_choice :: "jsval \<Rightarrow> js_error + jsval option" where
  "first_choice c =
     (case get_prop c ''choices'' of
        Inl e \<Rightarrow> Inl e
      | Inr ch \<Rightarrow>
          (case index0 ch of
             Inl e \<Rightarrow> Inl e
           | Inr x \<Rightarrow> Inr (opt_prop (opt_prop x ''message'') ''content'')))"

text \<open>\<^verbatim>\<open>app.post('/api/symptom-checker/identify')\<close>.\<close>

definition symptom_request :: "jsval list \<Rightarrow> completion_request" where
  "symptom_request symptoms =
     \<lparr>messages =
        [\<lparr>role = Some (JStr ''user''),
          content = Some (JStr (''Given these symptoms: '' @ join_values '', '' symptoms
                               @ '', list possible medical conditions and advice.''))\<rparr>],
      model = ''llama3-8b-8192'', temperature = 7 / 10, max_tokens = 1024\<rparr>"

definition symptom_identify :: "vendor \<Rightarrow> fields \<Rightarrow> response \<times> completion_request list" where
  "symptom_identify vnd b =
     (case map_of b ''symptoms'' of
        Some (JArr symptoms) \<Rightarrow>
          if symptoms = [] then (msg_response 400 ''Symptoms array required'', [])
          else
            (let rq = symptom_request symptoms in
             case vnd rq of
               Inl e \<Rightarrow> (err_response ''Symptom checker error'' e, [rq])
             | Inr c \<Rightarrow>
                 (case first_choice c of
                    Inl e \<Rightarrow> (err_response ''Symptom checker error'' e, [rq])
                  | Inr a \<Rightarrow>
                      (\<lparr>status = 200,
                        body = Json (JObj [(''result'',
                                 case js_or a (Some (JStr ''No information found.'')) of
                                   Some r \<Rightarrow> r | None \<Rightarrow> JNull)])\<rparr>, [rq])))
      | _ \<Rightarrow> (msg_response 400 ''Symptoms array required'', []))"

text \<open>
  \<^verbatim>\<open>app.post('/api/chat')\<close>. The default \<^verbatim>\<open>chatHistory = []\<close> applies when the body
  has no such property; \<^verbatim>\<open>chatHistory.map\<close> throws a TypeError when the value is not
  an array, and the callback throws when an entry is null.
\<close>

definition system_msg :: chat_msg where
  "system_msg =
     \<lparr>role = Some (JStr ''system''),
      content = Some (JStr ''You are a helpful health assistant. Provide general info, do not diagnose. Suggest users consult a doctor.'')\<rparr>"

fun history_entry :: "jsval \<Rightarrow> js_error + chat_msg" where
  "history_entry JNull = Inl (cannot_read ''null'' ''role'')"
| "history_entry (JObj fs) =
     Inr \<lparr>role = map_of fs ''role'', content = js_or (map_of fs ''message'') (map_of fs ''content'')\<rparr>"
| "history_entry v = Inr \<lparr>role = None, content = None\<rparr>"

fun map_history :: "jsval list \<Rightarrow> js_error + chat_msg list" where
  "map_history [] = Inr []"
| "map_history (m # ms) =
     (case history_entry m of
        Inl e \<Rightarrow> Inl e
      | Inr x \<Rightarrow> (case map_history ms of Inl e \<Rightarrow> Inl e | Inr xs \<Rightarrow> Inr (x # xs)))"

fun history_of :: "jsval option \<Rightarrow> js_error + chat_msg list" where
  "history_of None = Inr []"
| "history_of (Some (JArr ms)) = map_history ms"
| "history_of (Some JNull) = Inl (cannot_read ''null'' ''map'')"
| "history_of (Some v) = Inl ''chatHistory.map is not a function''"

definition chat_request :: "chat_msg list \<Rightarrow> jsval \<Rightarrow> completion_request" where
  "chat_request hist message =
     \<lparr>messages = system_msg # hist @ [\<lparr>role = Some (JStr ''user''), content = Some message\<rparr>],
      model = ''llama3-8b-8192'', temperature = 7 / 10, max_tokens = 512\<rparr>"

definition chat :: "vendor \<Rightarrow> fields \<Rightarrow> response \<times> completion_request list" where
  "chat vnd b =
     (case map_of b ''message'' of
        None \<Rightarrow> (msg_response 400 ''Message is required'', [])
      | Some message \<Rightarrow>
          if \<not> truthy message then (msg_response 400 ''Message is required'', [])
          else
            (case history_of (map_of b ''chatHistory'') of
               Inl e \<Rightarrow> (err_response ''Chat error'' e, [])
             | Inr hist \<Rightarrow>
                 (let rq = chat_request hist message in
                  case vnd rq of
                    Inl e \<Rightarrow> (err_response ''Chat error'' e, [rq])
                  | Inr c \<Rightarrow>
                      (case first_choice c of
                         Inl e \<Rightarrow> (err_response ''Chat error'' e, [rq])
                       | Inr a \<Rightarrow>
                           (\<lparr>status = 200,
                             body = Json (JObj [(''response'',
                                      case js_or a (Some (JStr ''No response.'')) of
                                        Some r \<Rightarrow> r | None \<Rightarrow> JNull)])\<rparr>, [rq])))))"

text \<open>The data model's invariant: a userId identifies at most one profile.\<close>

definition unique_userIds :: "fields list \<Rightarrow> bool" where
  "unique_userIds us = (\<forall>uid. length (filter (has_userId uid) us) \<le> 1)"

text \<open>The store before any request.\<close>

definition empty_store :: store where
  "empty_store = \<lparr>users = [], reminders = [], next_id = 0\<rparr>"

text \<open>A store with one profile, and a list of reminders of two users, to run the handlers on.\<close>

definition ex_store :: store where
  "ex_store =
     \<lparr>users = [[(''userId'', JStr ''u1''), (''name'', JStr ''Ann''), (''email'', JStr ''a@x''),
                 (''city'', JStr ''Rome'')]],
      reminders = [], next_id = 0\<rparr>"

definition ex_reminders :: "reminder list" where
  "ex_reminders =
     [\<lparr>rid = 0, userId = JStr ''u1'', title = JStr ''pills'', dueDate = 30, description = None\<rparr>,
      \<lparr>rid = 1, userId = JStr ''u2'', title = JStr ''walk'', dueDate = 5, description = None\<rparr>,
      \<lparr>rid = 2, userId = JStr ''u1'', title = JStr ''doctor'', dueDate = 10,
        description = Some (JStr ''9am'')\<rparr>]"

text \<open>
  A vendor that answers every request with one choice, and a cast of due dates that
  accepts the numbers (milliseconds) and rejects everything else.
\<close>

definition ex_vendor :: vendor where
  "ex_vendor rq =
     Inr (JObj [(''choices'',
            JArr [JObj [(''message'', JObj [(''role'', JStr ''assistant''),
                                              (''content'', JStr ''Rest and drink water.'')])]])])"

definition ex_cast :: "jsval \<Rightarrow> js_error + int" where
  "ex_cast v = (case v of JNum n \<Rightarrow> Inr n | _ \<Rightarrow> Inl ''Cast to date failed'')"

section \<open>Facts about the store operations\<close>

lemma map_of_set_field: "map_of (set_field k v fs) = (map_of fs)(k \<mapsto> v)"
  by (induction fs) auto

lemma map_of_set_fields:
  "map_of (set_fields upd d) k = (case map_of upd k of Some v \<Rightarrow> Some v | None \<Rightarrow> map_of d k)"
  by (induction upd d rule: set_fields.induct) (auto simp: map_of_set_field)

lemma map_of_with_defaults_keep:
  "map_of d k = Some v \<Longrightarrow> map_of (with_defaults dfl d) k = Some v"
  by (induction dfl arbitrary: d) auto

lemma map_of_rest_of:
  "map_of (rest_of b) k = (if k = ''userId'' \<or> k = ''name'' \<or> k = ''email'' then None else map_of b k)"
  unfolding rest_of_def by (induction b) auto

lemma filter_update_first:
  "(\<And>d. p d \<Longrightarrow> p (f d)) \<Longrightarrow>
   filter p (update_first p f us) = (case filter p us of [] \<Rightarrow> [] | x # xs \<Rightarrow> f x # xs)"
  by (induction us) auto

lemma filter_not_update_first:
  "(\<And>d. p d \<Longrightarrow> p (f d)) \<Longrightarrow> filter (\<lambda>d. \<not> p d) (update_first p f us) = filter (\<lambda>d. \<not> p d) us"
  by (induction us) auto

lemma find_Some_filter: "find p us = Some d \<Longrightarrow> \<exists>xs. filter p us = d # xs"
  by (induction us) (auto split: if_splits)

lemma find_None_filter: "find p us = None \<Longrightarrow> filter p us = []"
  by (induction us) (auto split: if_splits)

lemma upsert_keeps_key:
  assumes "map_of upd ''userId'' = None"
  shows "has_userId uid d \<Longrightarrow> has_userId uid (set_fields upd d)"
  using assms by (simp add: has_userId_def map_of_set_fields)

lemma upsert_new_has_key:
  assumes "map_of upd ''userId'' = None"
  shows "has_userId uid (with_defaults dfl (set_fields upd [(''userId'', uid)]))"
  unfolding has_userId_def using assms
  by (intro map_of_with_defaults_keep) (simp add: map_of_set_fields)

lemma findOneAndUpdate_upsert:
  assumes nokey: "map_of upd ''userId'' = None"
    and one: "length (filter (has_userId uid) us) \<le> 1"
  shows "\<exists>d. findOneAndUpdate True dfl uid upd us = (Some d, snd (findOneAndUpdate True dfl uid upd us))
           \<and> filter (has_userId uid) (snd (findOneAndUpdate True dfl uid upd us)) = [d]
           \<and> filter (\<lambda>d. \<not> has_userId uid d) (snd (findOneAndUpdate True dfl uid upd us))
               = filter (\<lambda>d. \<not> has_userId uid d) us
           \<and> (\<forall>k v. map_of upd k = Some v \<longrightarrow> map_of d k = Some v)"
proof (cases "find (has_userId uid) us")
  case None
  let ?d = "with_defaults dfl (set_fields upd [(''userId'', uid)])"
  have "\<And>k v. map_of upd k = Some v \<Longrightarrow> map_of ?d k = Some v"
    by (intro map_of_with_defaults_keep) (simp add: map_of_set_fields)
  with None show ?thesis
    by (simp add: findOneAndUpdate_def Let_def find_None_filter upsert_new_has_key [OF nokey])
next
  case (Some d0)
  from find_Some_filter [OF Some] obtain xs where "filter (has_userId uid) us = d0 # xs" ..
  with one have f: "filter (has_userId uid) us = [d0]" by simp
  have keep: "\<And>d. has_userId uid d \<Longrightarrow> has_userId uid (set_fields upd d)"
    by (rule upsert_keeps_key [OF nokey])
  have "\<And>k v. map_of upd k = Some v \<Longrightarrow> map_of (set_fields upd d0) k = Some v"
    by (simp add: map_of_set_fields)
  with Some f show ?thesis
    by (simp add: findOneAndUpdate_def
          filter_update_first [of "has_userId uid" "set_fields upd", OF keep]
          filter_not_update_first [of "has_userId uid" "set_fields upd", OF keep])
qed

lemma findOne_None_iff: "findOne uid us = None \<longleftrightarrow> (\<forall>d \<in> set us. \<not> has_userId uid d)"
  by (auto simp: findOne_def find_None_iff)

lemma findOne_Some: "findOne uid us = Some d \<Longrightarrow> d \<in> set us \<and> has_userId uid d"
  by (auto simp: findOne_def find_Some_iff)

lemma update_first_in_place:
  "find p us = Some d \<Longrightarrow>
   \<exists>pre post. us = pre @ d # post \<and> (\<forall>x \<in> set pre. \<not> p x) \<and> update_first p f us = pre @ f d # post"
proof (induction us)
  case Nil
  then show ?case by simp
next
  case (Cons u us)
  show ?case
  proof (cases "p u")
    case True
    with Cons.prems have "u = d" by simp
    with True show ?thesis by (intro exI [of _ "[]"] exI [of _ us]) simp
  next
    case False
    with Cons.prems have "find p us = Some d" by simp
    from Cons.IH [OF this] obtain pre post where
      "us = pre @ d # post" "\<forall>x \<in> set pre. \<not> p x" "update_first p f us = pre @ f d # post"
      by blast
    with False show ?thesis by (intro exI [of _ "u # pre"] exI [of _ post]) simp
  qed
qed

lemma chat_depends_on_map:
  "map_of b ''message'' = map_of b' ''message'' \<Longrightarrow>
   history_of (map_of b ''chatHistory'') = history_of (map_of b' ''chatHistory'') \<Longrightarrow>
   chat vnd b = chat vnd b'"
  by (cases "map_of b' ''message''") (simp_all add: chat_def)

lemma map_history_entries:
  "JNull \<notin> set hist \<Longrightarrow>
   \<exists>hs. map_history hist = Inr hs \<and> length hs = length hist
      \<and> (\<forall>i < length hist. history_entry (hist ! i) = Inr (hs ! i))"
proof (induction hist)
  case Nil
  then show ?case by simp
next
  case (Cons m ms)
  then obtain hs where hs: "map_history ms = Inr hs" "length hs = length ms"
    "\<forall>i < length ms. history_entry (ms ! i) = Inr (hs ! i)"
    by auto
  from Cons.prems obtain x where x: "history_entry m = Inr x"
    by (cases m) auto
  have "\<forall>i < length (m # ms). history_entry ((m # ms) ! i) = Inr ((x # hs) ! i)"
    using hs(3) x by (auto simp: nth_Cons split: nat.splits)
  with hs x show ?case by simp
qed

lemma failure_reported_by_the_other_handlers:
  "truthy uid \<Longrightarrow> resp (put_profile (Some e) (Some uid) b st) = err_response ''Server error'' e"
  "truthy uid \<Longrightarrow> resp (get_reminders (Some e) (Some uid) st) = err_response ''Server error'' e"
  "map_of b ''userId'' = Some uid \<Longrightarrow> map_of b ''name'' = Some nm \<Longrightarrow> map_of b ''email'' = Some em \<Longrightarrow>
   truthy uid \<Longrightarrow> truthy nm \<Longrightarrow> truthy em \<Longrightarrow>
   resp (post_profile dfl (Some e) b st) = err_response ''Server error'' e"
  "map_of b ''userId'' = Some uid \<Longrightarrow> map_of b ''title'' = Some ttl \<Longrightarrow> map_of b ''dueDate'' = Some due \<Longrightarrow>
   truthy uid \<Longrightarrow> truthy ttl \<Longrightarrow> truthy due \<Longrightarrow> cast due = Inr d \<Longrightarrow>
   resp (post_reminders cast (Some e) b st) = err_response ''Server error'' e"
  "map_of b ''symptoms'' = Some (JArr (x # xs)) \<Longrightarrow> vnd (symptom_request (x # xs)) = Inl e \<Longrightarrow>
   fst (symptom_identify vnd b) = err_response ''Symptom checker error'' e"
  "map_of b ''message'' = Some msg \<Longrightarrow> truthy msg \<Longrightarrow> history_of (map_of b ''chatHistory'') = Inr hs \<Longrightarrow>
   vnd (chat_request hs msg) = Inl e \<Longrightarrow>
   fst (chat vnd b) = err_response ''Chat error'' e"
  by (simp_all add: put_profile_def get_reminders_def post_profile_def post_reminders_def
      symptom_identify_def chat_def Let_def split: sum.splits)

section \<open>The profile is upserted by its userId\<close>

lemma post_profile_accepts:
  assumes b: "map_of b ''userId'' = Some uid" "map_of b ''name'' = Some nm"
      "map_of b ''email'' = Some em"
    and t: "truthy uid" "truthy nm" "truthy em"
    and one: "length (filter (has_userId uid) (users st)) \<le> 1"
  shows "\<exists>d. resp (post_profile dfl None b st) = \<lparr>status = 200, body = Json (JObj d)\<rparr>
           \<and> filter (has_userId uid) (users (after (post_profile dfl None b st))) = [d]
           \<and> filter (\<lambda>d. \<not> has_userId uid d) (users (after (post_profile dfl None b st)))
               = filter (\<lambda>d. \<not> has_userId uid d) (users st)
           \<and> map_of d ''name'' = Some nm \<and> map_of d ''email'' = Some em"
proof -
  let ?upd = "(''name'', nm) # (''email'', em) # rest_of b"
  have nokey: "map_of ?upd ''userId'' = None"
    by (simp add: map_of_rest_of)
  from findOneAndUpdate_upsert [OF nokey one, of dfl]
  obtain d where d: "findOneAndUpdate True dfl uid ?upd (users st)
        = (Some d, snd (findOneAndUpdate True dfl uid ?upd (users st)))"
    and only: "filter (has_userId uid) (snd (findOneAndUpdate True dfl uid ?upd (users st))) = [d]"
    and others: "filter (\<lambda>d. \<not> has_userId uid d) (snd (findOneAndUpdate True dfl uid ?upd (users st)))
        = filter (\<lambda>d. \<not> has_userId uid d) (users st)"
    and set: "\<forall>k v. map_of ?upd k = Some v \<longrightarrow> map_of d k = Some v"
    by blast
  have out: "post_profile dfl None b st =
      \<lparr>resp = \<lparr>status = 200, body = Json (JObj d)\<rparr>,
       after = st\<lparr>users := snd (findOneAndUpdate True dfl uid ?upd (users st))\<rparr>,
       calls = [User_findOneAndUpdate uid ?upd True]\<rparr>"
    unfolding post_profile_def using b t by (simp add: Let_def) (subst d, simp)
  have "map_of d ''name'' = Some nm" "map_of d ''email'' = Some em"
    using set by simp_all
  with only others show ?thesis
    unfolding out by simp
qed

text \<open>An accepted post keeps the invariant of the data model.\<close>

lemma filter_other_key:
  assumes "uid' \<noteq> uid"
  shows "filter (has_userId uid') us = filter (has_userId uid') (filter (\<lambda>d. \<not> has_userId uid d) us)"
  using assms by (induction us) (auto simp: has_userId_def)

lemma post_profile_keeps_unique:
  assumes b: "map_of b ''userId'' = Some uid" "map_of b ''name'' = Some nm"
      "map_of b ''email'' = Some em"
    and t: "truthy uid" "truthy nm" "truthy em"
    and u: "unique_userIds (users st)"
  shows "unique_userIds (users (after (post_profile dfl None b st)))"
  unfolding unique_userIds_def
proof
  fix uid'
  let ?us' = "users (after (post_profile dfl None b st))"
  from u have one: "length (filter (has_userId uid) (users st)) \<le> 1"
    by (simp add: unique_userIds_def)
  from post_profile_accepts [OF b t one, of dfl] obtain d where
    only: "filter (has_userId uid) ?us' = [d]"
    and others: "filter (\<lambda>d. \<not> has_userId uid d) ?us' = filter (\<lambda>d. \<not> has_userId uid d) (users st)"
    by blast
  show "length (filter (has_userId uid') ?us') \<le> 1"
  proof (cases "uid' = uid")
    case True
    with only show ?thesis by simp
  next
    case False
    have "filter (has_userId uid') ?us' = filter (has_userId uid') (users st)"
      using filter_other_key [OF False, of ?us'] filter_other_key [OF False, of "users st"] others
      by simp
    with u show ?thesis by (simp add: unique_userIds_def)
  qed
qed

text \<open>
  Claim C1, as the code has it. For every userId that is not empty (truthy, so that the
  guard of the handler lets it pass) and every store that holds at most one record with
  that userId: two posts to \<^verbatim>\<open>/api/user/profile\<close> with that userId, each with a name
  and an email that are not empty and each answered by the store, leave exactly one
  stored record with that userId; its name is the name of the second post. Each post
  responds 200 with the record as it is stored after that post, and the records of
  other userIds are as they were.
\<close>

theorem post_profile_twice_upsert:
  assumes b1: "map_of b1 ''userId'' = Some uid" "map_of b1 ''name'' = Some n1"
      "map_of b1 ''email'' = Some e1"
    and b2: "map_of b2 ''userId'' = Some uid" "map_of b2 ''name'' = Some n2"
      "map_of b2 ''email'' = Some e2"
    and t: "truthy uid" "truthy n1" "truthy e1" "truthy n2" "truthy e2"
    and one: "length (filter (has_userId uid) (users st)) \<le> 1"
  shows "\<exists>d1 d2.
      resp (post_profile dfl None b1 st) = \<lparr>status = 200, body = Json (JObj d1)\<rparr>
    \<and> filter (has_userId uid) (users (after (post_profile dfl None b1 st))) = [d1]
    \<and> map_of d1 ''name'' = Some n1
    \<and> resp (post_profile dfl None b2 (after (post_profile dfl None b1 st)))
        = \<lparr>status = 200, body = Json (JObj d2)\<rparr>
    \<and> filter (has_userId uid)
         (users (after (post_profile dfl None b2 (after (post_profile dfl None b1 st))))) = [d2]
    \<and> map_of d2 ''name'' = Some n2
    \<and> filter (\<lambda>d. \<not> has_userId uid d)
         (users (after (post_profile dfl None b2 (after (post_profile dfl None b1 st)))))
        = filter (\<lambda>d. \<not> has_userId uid d) (users st)"
proof -
  let ?s1 = "after (post_profile dfl None b1 st)"
  from post_profile_accepts [OF b1 t(1,2,3) one, of dfl]
  obtain d1 where r1: "resp (post_profile dfl None b1 st) = \<lparr>status = 200, body = Json (JObj d1)\<rparr>"
    and f1: "filter (has_userId uid) (users ?s1) = [d1]"
    and o1: "filter (\<lambda>d. \<not> has_userId uid d) (users ?s1) = filter (\<lambda>d. \<not> has_userId uid d) (users st)"
    and n1: "map_of d1 ''name'' = Some n1"
    by blast
  have one': "length (filter (has_userId uid) (users ?s1)) \<le> 1"
    by (simp add: f1)
  from post_profile_accepts [OF b2 t(1,4,5) one', of dfl]
  obtain d2 where r2: "resp (post_profile dfl None b2 ?s1) = \<lparr>status = 200, body = Json (JObj d2)\<rparr>"
    and f2: "filter (has_userId uid) (users (after (post_profile dfl None b2 ?s1))) = [d2]"
    and o2: "filter (\<lambda>d. \<not> has_userId uid d) (users (after (post_profile dfl None b2 ?s1)))
        = filter (\<lambda>d. \<not> has_userId uid d) (users ?s1)"
    and n2: "map_of d2 ''name'' = Some n2"
    by blast
  from r1 f1 n1 r2 f2 n2 o1 o2 show ?thesis by simp
qed

theorem post_profile_twice_upsert_witness:
  "\<exists>d1 d2.
      resp (post_profile [(''age'', JNum 0)] None
              [(''userId'', JStr ''u1''), (''name'', JStr ''Ann''), (''email'', JStr ''a@x'')]
              empty_store) = \<lparr>status = 200, body = Json (JObj d1)\<rparr>
    \<and> map_of d1 ''name'' = Some (JStr ''Ann'')
    \<and> filter (has_userId (JStr ''u1''))
         (users (after (post_profile [(''age'', JNum 0)] None
            [(''userId'', JStr ''u1''), (''name'', JStr ''Bea''), (''email'', JStr ''a@x'')]
            (after (post_profile [(''age'', JNum 0)] None
               [(''userId'', JStr ''u1''), (''name'', JStr ''Ann''), (''email'', JStr ''a@x'')]
               empty_store))))) = [d2]
    \<and> map_of d2 ''name'' = Some (JStr ''Bea'')"
  using post_profile_twice_upsert [of
      "[(''userId'', JStr ''u1''), (''name'', JStr ''Ann''), (''email'', JStr ''a@x'')]"
      "JStr ''u1''" "JStr ''Ann''" "JStr ''a@x''"
      "[(''userId'', JStr ''u1''), (''name'', JStr ''Bea''), (''email'', JStr ''a@x'')]"
      "JStr ''Bea''" "JStr ''a@x''" empty_store "[(''age'', JNum 0)]"]
  by (simp add: empty_store_def) blast

text \<open>
  The claim as written quantifies over every userId. With the empty string as userId
  both posts are refused with 400 and no record is stored.
\<close>

theorem post_profile_empty_userId_counterexample:
  "status (resp (post_profile [] None
      [(''userId'', JStr ''''), (''name'', JStr ''Ann''), (''email'', JStr ''a@x'')] empty_store)) = 400
   \<and> status (resp (post_profile [] None
      [(''userId'', JStr ''''), (''name'', JStr ''Bea''), (''email'', JStr ''a@x'')]
      (after (post_profile [] None
         [(''userId'', JStr ''''), (''name'', JStr ''Ann''), (''email'', JStr ''a@x'')] empty_store)))) = 400
   \<and> filter (has_userId (JStr ''''))
        (users (after (post_profile [] None
           [(''userId'', JStr ''''), (''name'', JStr ''Bea''), (''email'', JStr ''a@x'')]
           (after (post_profile [] None
              [(''userId'', JStr ''''), (''name'', JStr ''Ann''), (''email'', JStr ''a@x'')] empty_store))))) = []"
  by (simp add: post_profile_def msg_response_def empty_store_def)

section \<open>Listing reminders\<close>

text \<open>
  Claim C2, as the code has it. For every userId that is not empty (truthy) and every
  store state, when the store answers the query, \<^verbatim>\<open>GET /api/reminders\<close> with that
  userId responds 200 with a list that holds exactly the reminder records whose userId
  equals the given one (as a multiset: each as often as it is stored), in order of
  non-decreasing due date; the store is left as it was.
\<close>

theorem get_reminders_sorted:
  assumes "truthy uid"
  shows "resp (get_reminders None (Some uid) st)
           = \<lparr>status = 200, body = ReminderList (find_sorted uid (reminders st))\<rparr>
       \<and> mset (find_sorted uid (reminders st)) = filter_mset (\<lambda>r. userId r = uid) (mset (reminders st))
       \<and> sorted (map dueDate (find_sorted uid (reminders st)))
       \<and> after (get_reminders None (Some uid) st) = st"
  using assms by (simp add: get_reminders_def find_sorted_def)

theorem get_reminders_sorted_witness:
  "truthy (JStr ''u1'')
   \<and> resp (get_reminders None (Some (JStr ''u1'')) \<lparr>users = [], reminders = ex_reminders, next_id = 3\<rparr>)
       = \<lparr>status = 200, body = ReminderList
           [\<lparr>rid = 2, userId = JStr ''u1'', title = JStr ''doctor'', dueDate = 10,
              description = Some (JStr ''9am'')\<rparr>,
            \<lparr>rid = 0, userId = JStr ''u1'', title = JStr ''pills'', dueDate = 30, description = None\<rparr>]\<rparr>
   \<and> sorted (map dueDate (find_sorted (JStr ''u1'') ex_reminders))"
  using get_reminders_sorted [of "JStr ''u1''" "\<lparr>users = [], reminders = ex_reminders, next_id = 3\<rparr>"]
  by (simp add: find_sorted_def ex_reminders_def)

text \<open>
  The claim as written quantifies over every userId. With the empty string the handler
  responds 400 with a message, not with the list of the matching reminders.
\<close>

theorem get_reminders_empty_userId_counterexample:
  "resp (get_reminders None (Some (JStr '''')) empty_store) = msg_response 400 ''userId is required''
   \<and> resp (get_reminders None (Some (JStr '''')) empty_store)
       \<noteq> \<lparr>status = 200, body = ReminderList (find_sorted (JStr '''') (reminders empty_store))\<rparr>"
  by (simp add: get_reminders_def msg_response_def)

section \<open>Fetching a profile\<close>

text \<open>
  Claim C4, as the code has it. For every request to \<^verbatim>\<open>GET /api/user/profile\<close>: if the
  userId query parameter is absent or empty (\<^verbatim>\<open>!userId\<close> holds) the response is 400
  and the store is not called; otherwise, when the store answers the lookup, the response
  is 404 if no stored record has that userId, and else 200 with a stored record of that
  userId, verbatim. The store state is unchanged in every case.
\<close>

theorem get_profile_cases:
  "(js_not q \<longrightarrow> get_profile fault q st
       = \<lparr>resp = msg_response 400 ''userId is required'', after = st, calls = []\<rparr>)
   \<and> (truthy uid \<and> (\<forall>d \<in> set (users st). \<not> has_userId uid d) \<longrightarrow>
        resp (get_profile None (Some uid) st) = msg_response 404 ''User not found'')
   \<and> (truthy uid \<and> (\<exists>d \<in> set (users st). has_userId uid d) \<longrightarrow>
        (\<exists>d \<in> set (users st). has_userId uid d
           \<and> resp (get_profile None (Some uid) st) = \<lparr>status = 200, body = Json (JObj d)\<rparr>))
   \<and> after (get_profile fault q st) = st"
proof (intro conjI impI)
  assume "js_not q"
  then show "get_profile fault q st
       = \<lparr>resp = msg_response 400 ''userId is required'', after = st, calls = []\<rparr>"
    by (cases q) (simp_all add: get_profile_def)
next
  assume "truthy uid \<and> (\<forall>d \<in> set (users st). \<not> has_userId uid d)"
  then show "resp (get_profile None (Some uid) st) = msg_response 404 ''User not found''"
    using findOne_None_iff [of uid "users st"] by (simp add: get_profile_def)
next
  assume a: "truthy uid \<and> (\<exists>d \<in> set (users st). has_userId uid d)"
  then obtain d where d: "findOne uid (users st) = Some d"
    using findOne_None_iff [of uid "users st"] by (cases "findOne uid (users st)") auto
  from findOne_Some [OF d] a d
  show "\<exists>d \<in> set (users st). has_userId uid d
           \<and> resp (get_profile None (Some uid) st) = \<lparr>status = 200, body = Json (JObj d)\<rparr>"
    by (auto simp: get_profile_def)
next
  show "after (get_profile fault q st) = st"
    by (simp add: get_profile_def split: option.splits)
qed

theorem get_profile_cases_witness:
  "get_profile None (Some (JStr '''')) ex_store
       = \<lparr>resp = msg_response 400 ''userId is required'', after = ex_store, calls = []\<rparr>
   \<and> resp (get_profile None (Some (JStr ''u2'')) ex_store) = msg_response 404 ''User not found''
   \<and> resp (get_profile None (Some (JStr ''u1'')) ex_store)
       = \<lparr>status = 200,
          body = Json (JObj [(''userId'', JStr ''u1''), (''name'', JStr ''Ann''),
                             (''email'', JStr ''a@x''), (''city'', JStr ''Rome'')])\<rparr>
   \<and> after (get_profile None (Some (JStr ''u1'')) ex_store) = ex_store"
  using get_profile_cases [of "Some (JStr '''')" None ex_store "JStr ''u2''"]
    get_profile_cases [of "Some (JStr ''u1'')" None ex_store "JStr ''u1''"]
  by (simp add: ex_store_def has_userId_def)

text \<open>
  The claim as written asks for 400 only when the parameter is absent and for 404 when
  it is present and no record has it. The query \<^verbatim>\<open>?userId=\<close> carries the empty
  string: no record has it, and the response is 400, not 404.
\<close>

theorem get_profile_empty_userId_counterexample:
  "users empty_store = []
   \<and> resp (get_profile None (Some (JStr '''')) empty_store) \<noteq> msg_response 404 ''User not found''
   \<and> resp (get_profile None (Some (JStr '''')) empty_store) = msg_response 400 ''userId is required''"
  by (simp add: get_profile_def msg_response_def empty_store_def)

section \<open>Updating a profile in part\<close>

text \<open>
  Claim C5, as the code has it. For every request to \<^verbatim>\<open>PUT /api/user/profile\<close>: if the
  userId query parameter is absent or empty the response is 400, the store is unchanged
  and not called; otherwise, when the store answers: if no stored record has that userId
  the response is 404 and the store is unchanged; else the first record with that userId
  is replaced, in place, by its merge with the body (a field named in the body takes the
  body's value, every other field keeps its previous value) and the response is 200 with
  the updated record.
\<close>

theorem put_profile_cases:
  "(js_not q \<longrightarrow> put_profile fault q b st
       = \<lparr>resp = msg_response 400 ''userId is required'', after = st, calls = []\<rparr>)
   \<and> (truthy uid \<and> (\<forall>d \<in> set (users st). \<not> has_userId uid d) \<longrightarrow>
        resp (put_profile None (Some uid) b st) = msg_response 404 ''User not found''
        \<and> after (put_profile None (Some uid) b st) = st)
   \<and> (truthy uid \<and> (\<exists>d \<in> set (users st). has_userId uid d) \<longrightarrow>
        (\<exists>pre d post d'.
            users st = pre @ d # post \<and> has_userId uid d \<and> (\<forall>x \<in> set pre. \<not> has_userId uid x)
          \<and> users (after (put_profile None (Some uid) b st)) = pre @ d' # post
          \<and> (\<forall>k. map_of d' k = (case map_of b k of Some v \<Rightarrow> Some v | None \<Rightarrow> map_of d k))
          \<and> resp (put_profile None (Some uid) b st) = \<lparr>status = 200, body = Json (JObj d')\<rparr>))"
proof (intro conjI impI)
  assume "js_not q"
  then show "put_profile fault q b st
       = \<lparr>resp = msg_response 400 ''userId is required'', after = st, calls = []\<rparr>"
    by (cases q) (simp_all add: put_profile_def)
next
  assume "truthy uid \<and> (\<forall>d \<in> set (users st). \<not> has_userId uid d)"
  then have "truthy uid" "find (has_userId uid) (users st) = None"
    by (simp_all add: find_None_iff)
  then show "resp (put_profile None (Some uid) b st) = msg_response 404 ''User not found''"
    and "after (put_profile None (Some uid) b st) = st"
    by (simp_all add: put_profile_def findOneAndUpdate_def)
next
  assume a: "truthy uid \<and> (\<exists>d \<in> set (users st). has_userId uid d)"
  then obtain d where d: "find (has_userId uid) (users st) = Some d"
    by (cases "find (has_userId uid) (users st)") (auto simp: find_None_iff)
  then have hd: "has_userId uid d" by (auto simp: find_Some_iff)
  from update_first_in_place [OF d, of "set_fields b"] obtain pre post where
    pp: "users st = pre @ d # post" "\<forall>x \<in> set pre. \<not> has_userId uid x"
      "update_first (has_userId uid) (set_fields b) (users st) = pre @ set_fields b d # post"
    by blast
  have "users (after (put_profile None (Some uid) b st)) = pre @ set_fields b d # post"
    and "resp (put_profile None (Some uid) b st) = \<lparr>status = 200, body = Json (JObj (set_fields b d))\<rparr>"
    using a d pp(3) by (simp_all add: put_profile_def findOneAndUpdate_def)
  with pp(1,2) hd
  show "\<exists>pre d post d'.
            users st = pre @ d # post \<and> has_userId uid d \<and> (\<forall>x \<in> set pre. \<not> has_userId uid x)
          \<and> users (after (put_profile None (Some uid) b st)) = pre @ d' # post
          \<and> (\<forall>k. map_of d' k = (case map_of b k of Some v \<Rightarrow> Some v | None \<Rightarrow> map_of d k))
          \<and> resp (put_profile None (Some uid) b st) = \<lparr>status = 200, body = Json (JObj d')\<rparr>"
    by (intro exI [of _ pre] exI [of _ d] exI [of _ post] exI [of _ "set_fields b d"])
       (simp add: map_of_set_fields)
qed

theorem put_profile_cases_witness:
  "put_profile None (Some (JStr '''')) [(''city'', JStr ''Oslo''), (''age'', JNum 41)] ex_store
       = \<lparr>resp = msg_response 400 ''userId is required'', after = ex_store, calls = []\<rparr>
   \<and> resp (put_profile None (Some (JStr ''u2'')) [(''city'', JStr ''Oslo''), (''age'', JNum 41)] ex_store)
       = msg_response 404 ''User not found''
   \<and> after (put_profile None (Some (JStr ''u2'')) [(''city'', JStr ''Oslo''), (''age'', JNum 41)] ex_store)
       = ex_store
   \<and> (\<exists>d'. resp (put_profile None (Some (JStr ''u1'')) [(''city'', JStr ''Oslo''), (''age'', JNum 41)] ex_store)
               = \<lparr>status = 200, body = Json (JObj d')\<rparr>
           \<and> users (after (put_profile None (Some (JStr ''u1''))
                              [(''city'', JStr ''Oslo''), (''age'', JNum 41)] ex_store)) = [d']
           \<and> map_of d' ''city'' = Some (JStr ''Oslo'') \<and> map_of d' ''age'' = Some (JNum 41)
           \<and> map_of d' ''name'' = Some (JStr ''Ann'') \<and> map_of d' ''email'' = Some (JStr ''a@x''))"
proof -
  let ?b = "[(''city'', JStr ''Oslo''), (''age'', JNum 41)]"
  have u: "users ex_store = [[(''userId'', JStr ''u1''), (''name'', JStr ''Ann''),
        (''email'', JStr ''a@x''), (''city'', JStr ''Rome'')]]"
    by (simp add: ex_store_def)
  have h2: "truthy (JStr ''u2'') \<and> (\<forall>d \<in> set (users ex_store). \<not> has_userId (JStr ''u2'') d)"
    by (simp add: u has_userId_def)
  have h1: "truthy (JStr ''u1'') \<and> (\<exists>d \<in> set (users ex_store). has_userId (JStr ''u1'') d)"
    by (simp add: u has_userId_def)
  from put_profile_cases [of "Some (JStr '''')" None ?b ex_store "JStr ''u2''"] h2
  have c1: "put_profile None (Some (JStr '''')) ?b ex_store
       = \<lparr>resp = msg_response 400 ''userId is required'', after = ex_store, calls = []\<rparr>"
    and c2: "resp (put_profile None (Some (JStr ''u2'')) ?b ex_store) = msg_response 404 ''User not found''"
    and c3: "after (put_profile None (Some (JStr ''u2'')) ?b ex_store) = ex_store"
    by simp_all
  from put_profile_cases [of "Some (JStr ''u1'')" None ?b ex_store "JStr ''u1''"] h1
  obtain pre d post d' where
    s: "users ex_store = pre @ d # post"
    and a: "users (after (put_profile None (Some (JStr ''u1'')) ?b ex_store)) = pre @ d' # post"
    and m: "\<forall>k. map_of d' k = (case map_of ?b k of Some v \<Rightarrow> Some v | None \<Rightarrow> map_of d k)"
    and r: "resp (put_profile None (Some (JStr ''u1'')) ?b ex_store) = \<lparr>status = 200, body = Json (JObj d')\<rparr>"
    by blast
  from s have p: "pre = []" "post = []"
    and d: "d = [(''userId'', JStr ''u1''), (''name'', JStr ''Ann''), (''email'', JStr ''a@x''),
        (''city'', JStr ''Rome'')]"
    unfolding u by (simp_all add: Cons_eq_append_conv)
  have "map_of d' ''city'' = Some (JStr ''Oslo'')" "map_of d' ''age'' = Some (JNum 41)"
    "map_of d' ''name'' = Some (JStr ''Ann'')" "map_of d' ''email'' = Some (JStr ''a@x'')"
    using m unfolding d by simp_all
  with a r p c1 c2 c3 show ?thesis by simp
qed

text \<open>
  The claim as written asks for 400 only when the parameter is absent and for 404 when
  no record has the given userId. With the empty string as userId and no such record
  the response is 400, not 404.
\<close>

theorem put_profile_empty_userId_counterexample:
  "users empty_store = []
   \<and> resp (put_profile None (Some (JStr '''')) [(''city'', JStr ''Oslo'')] empty_store)
       \<noteq> msg_response 404 ''User not found''
   \<and> resp (put_profile None (Some (JStr '''')) [(''city'', JStr ''Oslo'')] empty_store)
       = msg_response 400 ''userId is required''"
  by (simp add: put_profile_def msg_response_def empty_store_def)

section \<open>Store and vendor failures\<close>

text \<open>
  Claim C3 asks every handler to answer a store or vendor failure with status 500 and
  a body that carries the message of the underlying error. Six handlers do
  (\<open>failure_reported_by_the_other_handlers\<close>: the body is
  \<^verbatim>\<open>{ message, error: err.message }\<close>). The catch block of
  \<^verbatim>\<open>GET /api/user/profile\<close> logs the error and answers \<^verbatim>\<open>{ message: 'Server error' }\<close>
  alone: when the lookup fails with the message \<^verbatim>\<open>connection lost\<close>, the body of the
  500 response has the one field \<^verbatim>\<open>message\<close>, and the underlying message is nowhere
  in it.
\<close>

theorem get_profile_store_failure:
  "get_profile (Some ''connection lost'') (Some (JStr ''u1'')) ex_store
     = \<lparr>resp = \<lparr>status = 500, body = Json (JObj [(''message'', JStr ''Server error'')])\<rparr>,
        after = ex_store, calls = [User_findOne (JStr ''u1'')]\<rparr>"
  by (simp add: get_profile_def msg_response_def)

section \<open>The symptom checker refuses what is not a non-empty list\<close>

text \<open>
  Claim C6. For every request body, whatever its other fields:
  \<^verbatim>\<open>POST /api/symptom-checker/identify\<close> responds 400 whenever the \<^verbatim>\<open>symptoms\<close> field
  is not a list (absent included) or is the empty list, and no request is sent to the
  vendor, whatever the vendor would do.
\<close>

theorem symptom_identify_rejects:
  assumes "(\<forall>xs. map_of b ''symptoms'' \<noteq> Some (JArr xs)) \<or> map_of b ''symptoms'' = Some (JArr [])"
  shows "symptom_identify vnd b = (msg_response 400 ''Symptoms array required'', [])"
  using assms
  by (auto simp: symptom_identify_def split: option.splits jsval.splits)

theorem symptom_identify_rejects_witness:
  "symptom_identify ex_vendor [(''symptoms'', JArr []), (''note'', JStr ''urgent'')]
     = (msg_response 400 ''Symptoms array required'', [])
   \<and> symptom_identify ex_vendor [(''symptoms'', JStr ''cough''), (''note'', JStr ''urgent'')]
     = (msg_response 400 ''Symptoms array required'', [])
   \<and> symptom_identify ex_vendor [(''note'', JStr ''urgent'')]
     = (msg_response 400 ''Symptoms array required'', [])"
  using symptom_identify_rejects [of "[(''symptoms'', JArr []), (''note'', JStr ''urgent'')]" ex_vendor]
    symptom_identify_rejects [of "[(''symptoms'', JStr ''cough''), (''note'', JStr ''urgent'')]" ex_vendor]
    symptom_identify_rejects [of "[(''note'', JStr ''urgent'')]" ex_vendor]
  by simp

section \<open>A chat without history\<close>

text \<open>
  Claim C7. For every message (every body without a \<^verbatim>\<open>chatHistory\<close> property) and
  every vendor behaviour, \<^verbatim>\<open>POST /api/chat\<close> gives exactly the same response (status
  and body) and the same vendor requests as the same body with \<^verbatim>\<open>chatHistory: []\<close>
  added.
\<close>

theorem chat_default_history:
  assumes "map_of b ''chatHistory'' = None"
    and "map_of b' = (map_of b)(''chatHistory'' \<mapsto> JArr [])"
  shows "chat vnd b' = chat vnd b"
  using assms by (intro chat_depends_on_map) simp_all

theorem chat_default_history_witness:
  "chat ex_vendor [(''message'', JStr ''hello''), (''chatHistory'', JArr [])]
     = chat ex_vendor [(''message'', JStr ''hello'')]
   \<and> chat (\<lambda>rq. Inl ''timeout'') [(''chatHistory'', JArr []), (''message'', JStr ''hello'')]
     = chat (\<lambda>rq. Inl ''timeout'') [(''message'', JStr ''hello'')]"
  using chat_default_history [of "[(''message'', JStr ''hello'')]"
      "[(''message'', JStr ''hello''), (''chatHistory'', JArr [])]" ex_vendor]
    chat_default_history [of "[(''message'', JStr ''hello'')]"
      "[(''chatHistory'', JArr []), (''message'', JStr ''hello'')]" "\<lambda>rq. Inl ''timeout''"]
  by (simp add: fun_eq_iff)

section \<open>Every write requires a userId\<close>

text \<open>
  Claim C8. Whenever the supplied userId is absent or empty, each of the three write
  handlers (profile create-or-replace, profile partial update, reminder create)
  responds 400, leaves the store state unchanged and makes no call to the store,
  whatever the other fields and whatever the store would do.
\<close>

theorem writes_require_userId:
  assumes "u = None \<or> u = Some (JStr '''')"
  shows "(map_of b ''userId'' = u \<longrightarrow>
            post_profile dfl fault b st
              = \<lparr>resp = msg_response 400 ''userId, name, email required'', after = st, calls = []\<rparr>)
       \<and> put_profile fault u b st
              = \<lparr>resp = msg_response 400 ''userId is required'', after = st, calls = []\<rparr>
       \<and> (map_of b ''userId'' = u \<longrightarrow>
            post_reminders cast fault b st
              = \<lparr>resp = msg_response 400 ''userId, title, dueDate required'', after = st, calls = []\<rparr>)"
  using assms
  by (auto simp: post_profile_def put_profile_def post_reminders_def split: option.splits)

theorem writes_require_userId_witness:
  "post_profile [] None [(''userId'', JStr ''''), (''name'', JStr ''Ann''), (''email'', JStr ''a@x'')] ex_store
     = \<lparr>resp = msg_response 400 ''userId, name, email required'', after = ex_store, calls = []\<rparr>
   \<and> post_profile [] None [(''name'', JStr ''Ann''), (''email'', JStr ''a@x'')] ex_store
     = \<lparr>resp = msg_response 400 ''userId, name, email required'', after = ex_store, calls = []\<rparr>
   \<and> put_profile None (Some (JStr '''')) [(''name'', JStr ''Ann'')] ex_store
     = \<lparr>resp = msg_response 400 ''userId is required'', after = ex_store, calls = []\<rparr>
   \<and> put_profile None None [(''name'', JStr ''Ann'')] ex_store
     = \<lparr>resp = msg_response 400 ''userId is required'', after = ex_store, calls = []\<rparr>
   \<and> post_reminders ex_cast None [(''userId'', JStr ''''), (''title'', JStr ''pills''), (''dueDate'', JNum 30)] ex_store
     = \<lparr>resp = msg_response 400 ''userId, title, dueDate required'', after = ex_store, calls = []\<rparr>
   \<and> post_reminders ex_cast None [(''title'', JStr ''pills''), (''dueDate'', JNum 30)] ex_store
     = \<lparr>resp = msg_response 400 ''userId, title, dueDate required'', after = ex_store, calls = []\<rparr>"
  using
    writes_require_userId [of "Some (JStr '''')"
      "[(''userId'', JStr ''''), (''name'', JStr ''Ann''), (''email'', JStr ''a@x'')]" "[]" None ex_store]
    writes_require_userId [of None "[(''name'', JStr ''Ann''), (''email'', JStr ''a@x'')]" "[]" None ex_store]
    writes_require_userId [of "Some (JStr '''')" "[(''name'', JStr ''Ann'')]" "[]" None ex_store]
    writes_require_userId [of None "[(''name'', JStr ''Ann'')]" "[]" None ex_store]
    writes_require_userId [of "Some (JStr '''')"
      "[(''userId'', JStr ''''), (''title'', JStr ''pills''), (''dueDate'', JNum 30)]" "[]" None ex_store ex_cast]
    writes_require_userId [of None "[(''title'', JStr ''pills''), (''dueDate'', JNum 30)]" "[]" None ex_store ex_cast]
  by simp

section \<open>An empty string counts as a missing field\<close>

text \<open>
  Claim C9. \<^verbatim>\<open>POST /api/user/profile\<close> with \<^verbatim>\<open>name\<close> or \<^verbatim>\<open>email\<close> equal to the empty
  string responds 400 without a call to the store and with the store unchanged, and
  \<^verbatim>\<open>POST /api/chat\<close> with \<^verbatim>\<open>message\<close> equal to the empty string responds 400 without
  a request to the vendor: in both handlers the outcome is the one of the absent field.
\<close>

theorem empty_string_as_absent:
  "(map_of b ''name'' = Some (JStr '''') \<or> map_of b ''email'' = Some (JStr '''')
      \<or> map_of b ''name'' = None \<or> map_of b ''email'' = None \<longrightarrow>
        post_profile dfl fault b st
          = \<lparr>resp = msg_response 400 ''userId, name, email required'', after = st, calls = []\<rparr>)
   \<and> (map_of b ''message'' = Some (JStr '''') \<or> map_of b ''message'' = None \<longrightarrow>
        chat vnd b = (msg_response 400 ''Message is required'', []))"
  by (auto simp: post_profile_def chat_def split: option.splits)

theorem empty_string_as_absent_witness:
  "post_profile [] None [(''userId'', JStr ''u1''), (''name'', JStr ''''), (''email'', JStr ''a@x'')] ex_store
     = \<lparr>resp = msg_response 400 ''userId, name, email required'', after = ex_store, calls = []\<rparr>
   \<and> post_profile [] None [(''userId'', JStr ''u1''), (''name'', JStr ''Ann''), (''email'', JStr '''')] ex_store
     = \<lparr>resp = msg_response 400 ''userId, name, email required'', after = ex_store, calls = []\<rparr>
   \<and> post_profile [] None [(''userId'', JStr ''u1''), (''email'', JStr ''a@x'')] ex_store
     = \<lparr>resp = msg_response 400 ''userId, name, email required'', after = ex_store, calls = []\<rparr>
   \<and> chat ex_vendor [(''message'', JStr ''''), (''chatHistory'', JArr [])]
     = (msg_response 400 ''Message is required'', [])
   \<and> chat ex_vendor [(''chatHistory'', JArr [])] = (msg_response 400 ''Message is required'', [])"
  using
    empty_string_as_absent [of "[(''userId'', JStr ''u1''), (''name'', JStr ''''), (''email'', JStr ''a@x'')]"
      "[]" None ex_store]
    empty_string_as_absent [of "[(''userId'', JStr ''u1''), (''name'', JStr ''Ann''), (''email'', JStr '''')]"
      "[]" None ex_store]
    empty_string_as_absent [of "[(''userId'', JStr ''u1''), (''email'', JStr ''a@x'')]" "[]" None ex_store]
    empty_string_as_absent [of "[(''message'', JStr ''''), (''chatHistory'', JArr [])]" _ _ _ ex_vendor]
    empty_string_as_absent [of "[(''chatHistory'', JArr [])]" _ _ _ ex_vendor]
  by simp

section \<open>What a history entry contributes to the vendor request\<close>

text \<open>
  Claim C10. When \<^verbatim>\<open>POST /api/chat\<close> forwards a history (the message is not empty, the
  history is a list and none of its entries is null), the vendor request holds the
  system message, one message per history entry in order, and the user's message. For
  every entry, the forwarded content is the entry's \<^verbatim>\<open>message\<close> field when that field
  is not empty (JavaScript truthy: present and none of null, false, 0 and the empty
  string), and its \<^verbatim>\<open>content\<close> field otherwise (an entry that is not an object has
  neither field, and contributes no content); in particular an entry whose
  \<^verbatim>\<open>message\<close> is a non-empty string contributes that string, whatever its
  \<^verbatim>\<open>content\<close> field.
\<close>

theorem chat_history_content:
  assumes msg: "map_of b ''message'' = Some msg" "truthy msg"
    and hist: "map_of b ''chatHistory'' = Some (JArr hist)" "JNull \<notin> set hist"
    and i: "i < length hist"
  shows "\<exists>rq. snd (chat vnd b) = [rq]
           \<and> length (messages rq) = length hist + 2
           \<and> content (messages rq ! Suc i)
               = (case hist ! i of
                    JObj fs \<Rightarrow> if js_not (map_of fs ''message'') then map_of fs ''content''
                               else map_of fs ''message''
                  | _ \<Rightarrow> None)
           \<and> (\<forall>fs s. hist ! i = JObj fs \<and> map_of fs ''message'' = Some (JStr s) \<and> s \<noteq> [] \<longrightarrow>
                  content (messages rq ! Suc i) = Some (JStr s))"
proof -
  from map_history_entries [OF hist(2)] obtain hs where
    hs: "map_history hist = Inr hs" "length hs = length hist"
      "\<forall>i < length hist. history_entry (hist ! i) = Inr (hs ! i)"
    by blast
  let ?rq = "chat_request hs msg"
  have sent: "snd (chat vnd b) = [?rq]"
    using msg hist(1) hs(1)
    by (simp add: chat_def Let_def split: sum.splits)
  from hist(2) i have nn: "hist ! i \<noteq> JNull"
    by (metis nth_mem)
  from hs(3) i have e: "history_entry (hist ! i) = Inr (hs ! i)"
    by simp
  have c: "content (hs ! i)
      = (case hist ! i of
           JObj fs \<Rightarrow> if js_not (map_of fs ''message'') then map_of fs ''content''
                      else map_of fs ''message''
         | _ \<Rightarrow> None)"
  proof -
    define x where "x = hs ! i"
    with e have "history_entry (hist ! i) = Inr x" by simp
    with nn have "content x
      = (case hist ! i of
           JObj fs \<Rightarrow> if js_not (map_of fs ''message'') then map_of fs ''content''
                      else map_of fs ''message''
         | _ \<Rightarrow> None)"
      by (cases "hist ! i") (auto simp: js_or_def)
    then show ?thesis by (simp add: x_def)
  qed
  have at: "messages ?rq ! Suc i = hs ! i"
    using i hs(2) by (simp add: chat_request_def nth_append)
  have len: "length (messages ?rq) = length hist + 2"
    using hs(2) by (simp add: chat_request_def)
  show ?thesis
    using sent len by (intro exI [of _ ?rq]) (auto simp: at c)
qed

theorem chat_history_content_witness:
  "\<exists>rq. snd (chat ex_vendor
             [(''message'', JStr ''hello''),
              (''chatHistory'',
                 JArr [JObj [(''role'', JStr ''user''), (''message'', JStr ''m1''), (''content'', JStr ''c1'')],
                       JObj [(''role'', JStr ''assistant''), (''message'', JStr ''''), (''content'', JStr ''c2'')]])])
          = [rq]
      \<and> content (messages rq ! 1) = Some (JStr ''m1'')
      \<and> content (messages rq ! 2) = Some (JStr ''c2'')"
proof -
  let ?e1 = "[(''role'', JStr ''user''), (''message'', JStr ''m1''), (''content'', JStr ''c1'')]"
  let ?e2 = "[(''role'', JStr ''assistant''), (''message'', JStr ''''), (''content'', JStr ''c2'')]"
  let ?b = "[(''message'', JStr ''hello''), (''chatHistory'', JArr [JObj ?e1, JObj ?e2])]"
  from chat_history_content [of ?b "JStr ''hello''" "[JObj ?e1, JObj ?e2]" 0 ex_vendor]
  obtain rq where rq: "snd (chat ex_vendor ?b) = [rq]" "content (messages rq ! 1) = Some (JStr ''m1'')"
    by auto
  from chat_history_content [of ?b "JStr ''hello''" "[JObj ?e1, JObj ?e2]" 1 ex_vendor]
  obtain rq' where rq': "snd (chat ex_vendor ?b) = [rq']" "content (messages rq' ! 2) = Some (JStr ''c2'')"
    by (auto simp: numeral_2_eq_2)
  from rq rq' show ?thesis by auto
qed

end
